theory Spec2Isabelle
  imports Complex_Main
begin

section \<open>The vector package: data model\<close>

text \<open>
  The Go type \<^verbatim>\<open>type Vector struct { X, Y, Z float64 }\<close> is modelled as a record of
  three real numbers. The model is one of exact arithmetic on finite values: a
  \<^verbatim>\<open>float64\<close> that holds a finite number is the real number it denotes, and
  \<open>+\<close>, \<open>-\<close>, \<open>*\<close>, \<open>/\<close>, \<^verbatim>\<open>math.Sqrt\<close>, \<^verbatim>\<open>math.Cos\<close>, \<^verbatim>\<open>math.Sin\<close> and
  \<^verbatim>\<open>math.Acos\<close> are the real operations, without rounding, overflow or underflow.

  IEEE-754 arithmetic never traps: a division by zero yields \<open>\<plusminus>Inf\<close> or \<open>NaN\<close>, and
  \<^verbatim>\<open>math.Acos\<close> outside \<open>[-1, 1]\<close> yields \<open>NaN\<close>. These values have no counterpart
  among the reals, and HOL's own \<open>x / 0 = 0\<close> is not what the program computes. Every
  operation that can produce them therefore returns a sum: \<open>Inl NonFinite\<close> where the
  Go code would return a value with a \<open>NaN\<close> or infinite component, \<open>Inr\<close> of the
  finite result otherwise. A Go panic (an index out of range) is an error value too.

  This exact model serves the evaluations on concrete vectors and the properties in
  which the range of \<^verbatim>\<open>float64\<close> plays no role. The functions behind the claims
  about every vector (\<^verbatim>\<open>Equals\<close>, \<^verbatim>\<open>Normalise\<close>, \<^verbatim>\<open>Heading\<close>) are modelled
  further down over a type of \<^verbatim>\<open>float64\<close> values with infinities, \<open>NaN\<close>, overflow
  and underflow.
\<close>

record Vector =
  X :: real
  Y :: real
  Z :: real

datatype error = IndexOutOfRange | NonFinite

subsection \<open>Construction and mutation\<close>

text \<open>
  \<^verbatim>\<open>func NewVector(values ...float64) Vector\<close> (the same text in both source files).
  The three guarded reads \<^verbatim>\<open>values[i]\<close> are in range by their guards.
\<close>

definition NewVector :: "real list \<Rightarrow> Vector" where
  "NewVector values =
     (let x = 0; y = 0; z = 0;
          l = length values;
          x = (if l > 0 then values ! 0 else x);
          y = (if l > 1 then values ! 1 else y);
          z = (if l > 2 then values ! 2 else z)
      in \<lparr>X = x, Y = y, Z = z\<rparr>)"

text \<open>
  \<^verbatim>\<open>func (v *Vector) Set(values ...float64)\<close> of \<^verbatim>\<open>vector.go\<close>: four consecutive
  \<^verbatim>\<open>if\<close> statements, each of which assigns the fields its body names and no other.
  The receiver is passed in and the updated receiver is returned.
\<close>

definition Set_m :: "Vector \<Rightarrow> real list \<Rightarrow> Vector" where
  "Set_m v values =
     (let l = length values;
          v = (if l = 0 then v\<lparr>X := 0, Y := 0, Z := 0\<rparr> else v);
          v = (if l > 0 then v\<lparr>X := values ! 0\<rparr> else v);
          v = (if l > 1 then v\<lparr>Y := values ! 1\<rparr> else v);
          v = (if l > 2 then v\<lparr>Z := values ! 2\<rparr> else v)
      in v)"

text \<open>
  \<^verbatim>\<open>func (v *Vector) Set(values ...float64)\<close> of the second source file
  (\<^verbatim>\<open>part_000\<close>): the same four statements, but the branches for one and two
  arguments also clear the fields that follow.
\<close>

definition Set_m_p0 :: "Vector \<Rightarrow> real list \<Rightarrow> Vector" where
  "Set_m_p0 v values =
     (let l = length values;
          v = (if l = 0 then v\<lparr>X := 0, Y := 0, Z := 0\<rparr> else v);
          v = (if l > 0 then v\<lparr>X := values ! 0, Y := 0, Z := 0\<rparr> else v);
          v = (if l > 1 then v\<lparr>Y := values ! 1, Z := 0\<rparr> else v);
          v = (if l > 2 then v\<lparr>Z := values ! 2\<rparr> else v)
      in v)"

subsection \<open>Scaling and metrics\<close>

text \<open>\<^verbatim>\<open>func (v *Vector) Mult(m float64)\<close>: three assignments, on three different fields.\<close>

definition Mult_m :: "Vector \<Rightarrow> real \<Rightarrow> Vector" where
  "Mult_m v m = v\<lparr>X := X v * m, Y := Y v * m, Z := Z v * m\<rparr>"

text \<open>
  \<^verbatim>\<open>func Div(v Vector, d float64) Vector\<close> and \<^verbatim>\<open>func (v *Vector) Div(d float64)\<close>.
  With \<open>d = 0\<close> every component of the Go result is \<open>NaN\<close> or infinite.
\<close>

definition Div :: "Vector \<Rightarrow> real \<Rightarrow> error + Vector" where
  "Div v d =
     (if d = 0 then Inl NonFinite
      else Inr \<lparr>X = X v / d, Y = Y v / d, Z = Z v / d\<rparr>)"

definition Div_m :: "Vector \<Rightarrow> real \<Rightarrow> error + Vector" where
  "Div_m v d =
     (if d = 0 then Inl NonFinite
      else Inr (v\<lparr>X := X v / d, Y := Y v / d, Z := Z v / d\<rparr>))"

definition MagSq :: "Vector \<Rightarrow> real" where
  "MagSq v = (X v * X v) + (Y v * Y v) + (Z v * Z v)"

definition MagSq_m :: "Vector \<Rightarrow> real" where
  "MagSq_m v = (X v * X v) + (Y v * Y v) + (Z v * Z v)"

definition Mag :: "Vector \<Rightarrow> real" where
  "Mag v = sqrt (MagSq v)"

definition Mag_m :: "Vector \<Rightarrow> real" where
  "Mag_m v = sqrt (MagSq_m v)"

definition DotProduct_m :: "Vector \<Rightarrow> Vector \<Rightarrow> real" where
  "DotProduct_m v other = X v * X other + Y v * Y other + Z v * Z other"

subsection \<open>Angles\<close>

text \<open>
  \<^verbatim>\<open>math.Acos\<close> returns \<open>NaN\<close> for an argument outside \<open>[-1, 1]\<close>.
\<close>

definition math_Acos :: "real \<Rightarrow> error + real" where
  "math_Acos r = (if r < - 1 \<or> 1 < r then Inl NonFinite else Inr (arccos r))"

text \<open>
  \<^verbatim>\<open>func AngleBetween(v1, v2 Vector) float64\<close> and
  \<^verbatim>\<open>func (v Vector) AngleBetween(other Vector) float64\<close>. When the product of the
  magnitudes is zero one of the vectors is the zero vector, the dot product is zero,
  and the quotient is \<open>0 / 0 = NaN\<close>.
\<close>

definition AngleBetween :: "Vector \<Rightarrow> Vector \<Rightarrow> error + real" where
  "AngleBetween v1 v2 =
     (let v1m = Mag_m v1;
          v2m = Mag_m v2;
          dp = DotProduct_m v1 v2
      in if v1m * v2m = 0 then Inl NonFinite else math_Acos (dp / (v1m * v2m)))"

definition AngleBetween_m :: "Vector \<Rightarrow> Vector \<Rightarrow> error + real" where
  "AngleBetween_m v other =
     (let v1m = Mag_m v;
          v2m = Mag_m other;
          dp = DotProduct_m v other
      in if v1m * v2m = 0 then Inl NonFinite else math_Acos (dp / (v1m * v2m)))"

text \<open>\<^verbatim>\<open>func Normalise(v Vector) Vector\<close> and \<^verbatim>\<open>func (v *Vector) Normalise()\<close>.\<close>

definition Normalise :: "Vector \<Rightarrow> error + Vector" where
  "Normalise v = (let m = Mag_m v in Div v m)"

definition Normalise_m :: "Vector \<Rightarrow> error + Vector" where
  "Normalise_m v = (let m = Mag_m v in Div_m v m)"

text \<open>
  \<^verbatim>\<open>func Heading(v Vector) float64\<close> passes the whole of \<open>v\<close> to \<^verbatim>\<open>AngleBetween\<close>;
  \<^verbatim>\<open>func (v Vector) Heading() float64\<close> calls the method on the base vector.
\<close>

definition Heading :: "Vector \<Rightarrow> error + real" where
  "Heading v =
     (let base = NewVector [10, 0];
          angle = AngleBetween v base
      in angle)"

definition Heading_m :: "Vector \<Rightarrow> error + real" where
  "Heading_m v = (let base = NewVector [10, 0] in AngleBetween_m base v)"

text \<open>
  \<^verbatim>\<open>func Rotate(v Vector, angle float64) Vector\<close> builds its result with the
  two-argument constructor. \<^verbatim>\<open>func (v *Vector) Rotate(angle float64)\<close> is two
  assignments in sequence: the second reads \<^verbatim>\<open>v.X\<close> after the first has written it.
\<close>

definition Rotate :: "Vector \<Rightarrow> real \<Rightarrow> Vector" where
  "Rotate v angle =
     (let c = cos (- angle);
          s = sin (- angle)
      in NewVector [c * X v - s * Y v, s * X v + c * Y v])"

definition Rotate_m :: "Vector \<Rightarrow> real \<Rightarrow> Vector" where
  "Rotate_m v angle =
     (let c = cos (- angle);
          s = sin (- angle);
          v = v\<lparr>X := c * X v - s * Y v\<rparr>;
          v = v\<lparr>Y := s * X v + c * Y v\<rparr>
      in v)"

text \<open>
  \<^verbatim>\<open>math.Mod(x, y)\<close> is the remainder of the division truncated towards zero: its
  sign is that of \<open>x\<close> and its magnitude is below that of \<open>y\<close>. It is \<open>NaN\<close> for
  \<open>y = 0\<close>.
\<close>

definition trunc :: "real \<Rightarrow> int" where
  "trunc r = (if 0 \<le> r then \<lfloor>r\<rfloor> else \<lceil>r\<rceil>)"

definition math_Mod :: "real \<Rightarrow> real \<Rightarrow> error + real" where
  "math_Mod x y = (if y = 0 then Inl NonFinite else Inr (x - y * of_int (trunc (x / y))))"

text \<open>
  \<^verbatim>\<open>func quadrant(angle float64) string\<close>, without its calls of \<^verbatim>\<open>log.Printf\<close>.
  Every comparison with \<open>NaN\<close> is false, which leaves the last \<^verbatim>\<open>return\<close>.
\<close>

definition quadrant :: "real \<Rightarrow> string" where
  "quadrant angle0 =
     (case math_Mod angle0 (2 * pi) of
        Inl e \<Rightarrow> ''ne''
      | Inr angle \<Rightarrow>
          if angle \<ge> 0 \<and> angle \<le> pi / 2 then ''se''
          else if angle \<ge> pi / 2 \<and> angle \<le> pi then ''sw''
          else if angle \<ge> pi \<and> angle < 3 * pi / 2 then ''nw''
          else ''ne'')"

text \<open>
  \<^verbatim>\<open>func FromAngle(values ...float64) Vector\<close>. The read \<^verbatim>\<open>values[0]\<close> is not
  guarded and panics on an empty argument list; the length is taken from the
  arguments only when there are exactly two of them.
\<close>

definition FromAngle :: "real list \<Rightarrow> error + Vector" where
  "FromAngle values =
     (if length values = 0 then Inl IndexOutOfRange
      else
        let angle = - 1 * (values ! 0);
            len = 1;
            len = (if length values = 2 then values ! 1 else len);
            x = cos angle;
            y = sin angle;
            v = NewVector [x, y]
        in case Normalise_m v of
             Inl e \<Rightarrow> Inl e
           | Inr v \<Rightarrow>
               let v = (if len \<noteq> 1 then Mult_m v len else v);
                   q = quadrant angle;
                   v = (if q = ''ne'' then v\<lparr>X := \<bar>X v\<bar>, Y := \<bar>Y v\<bar>\<rparr>
                        else if q = ''se'' then v\<lparr>X := \<bar>X v\<bar>, Y := - 1 * \<bar>Y v\<bar>\<rparr>
                        else if q = ''sw'' then v\<lparr>X := - 1 * \<bar>X v\<bar>, Y := - 1 * \<bar>Y v\<bar>\<rparr>
                        else if q = ''nw'' then v\<lparr>X := - 1 * \<bar>X v\<bar>, Y := \<bar>Y v\<bar>\<rparr>
                        else v)
               in Inr v)"

subsection \<open>Random unit vectors\<close>

text \<open>
  \<^verbatim>\<open>func Random2d() Vector\<close> and \<^verbatim>\<open>func Random3d() Vector\<close>. The values that the
  calls of \<^verbatim>\<open>rand.Float64()\<close> return, in the order of the calls, are parameters;
  \<^verbatim>\<open>rand.Float64\<close> returns a number in \<open>[0, 1)\<close>.
\<close>

definition Random2d :: "real \<Rightarrow> real \<Rightarrow> error + Vector" where
  "Random2d r1 r2 = (let v = NewVector [r1, r2] in Normalise_m v)"

definition Random3d :: "real \<Rightarrow> real \<Rightarrow> real \<Rightarrow> error + Vector" where
  "Random3d r1 r2 r3 = (let v = NewVector [r1, r2, r3] in Normalise_m v)"

subsection \<open>String representation\<close>

text \<open>
  \<^verbatim>\<open>func (v Vector) String() string\<close> returns
  \<^verbatim>\<open>fmt.Sprintf("{%2f, %2f, %2f}", v.X, v.Y, v.Z)\<close>. In the verb \<^verbatim>\<open>%2f\<close> the
  number \<open>2\<close> is the minimum field width; no precision is given (that would be
  \<^verbatim>\<open>%.2f\<close>), so \<^verbatim>\<open>fmt\<close> takes the default precision of the verb \<^verbatim>\<open>f\<close>, which is
  6. The text of the number is that of \<^verbatim>\<open>strconv.FormatFloat(x, 'f', 6, 64)\<close>: an
  optional minus sign, the integer digits, a point, and the fraction digits of the
  value rounded to the nearest multiple of \<open>10\<^sup>-\<^sup>6\<close>, a tie going to the even digit.
  A text shorter than the field width is padded with spaces on the left.
\<close>

definition round_half_even :: "real \<Rightarrow> int" where
  "round_half_even r =
     (let f = \<lfloor>r\<rfloor>;
          d = r - of_int f
      in if d < 1 / 2 then f
         else if 1 / 2 < d then f + 1
         else if even f then f else f + 1)"

definition digit_char :: "nat \<Rightarrow> char" where
  "digit_char d = ''0123456789'' ! d"

fun digits :: "nat \<Rightarrow> string" where
  "digits n =
     (if n < 10 then [digit_char n]
      else digits (n div 10) @ [digit_char (n mod 10)])"

declare digits.simps [simp del]

definition FormatFloat_f :: "nat \<Rightarrow> real \<Rightarrow> string" where
  "FormatFloat_f prec x =
     (let n = nat (round_half_even (\<bar>x\<bar> * 10 ^ prec));
          ds = digits n;
          ds = replicate (prec + 1 - length ds) CHR ''0'' @ ds;
          ip = take (length ds - prec) ds;
          fp = drop (length ds - prec) ds
      in (if x < 0 then ''-'' else []) @ ip @ (if prec = 0 then [] else ''.'' @ fp))"

definition pad_left :: "nat \<Rightarrow> string \<Rightarrow> string" where
  "pad_left w s = replicate (w - length s) CHR '' '' @ s"

definition Sprintf_2f :: "real \<Rightarrow> string" where
  "Sprintf_2f x = pad_left 2 (FormatFloat_f 6 x)"

definition String_m :: "Vector \<Rightarrow> string" where
  "String_m v =
     ''{'' @ Sprintf_2f (X v) @ '', '' @ Sprintf_2f (Y v) @ '', '' @ Sprintf_2f (Z v) @ ''}''"

section \<open>The range of \<^verbatim>\<open>float64\<close>\<close>

text \<open>
  The definitions above compute with exact real numbers. That is what the program
  computes, up to rounding, as long as every intermediate result lies in the range of
  \<^verbatim>\<open>float64\<close>. A claim about every vector also speaks of components so large that
  a square overflows, so small that it underflows, and of components that are
  \<open>\<plusminus>Inf\<close> or \<open>NaN\<close>. For these claims the functions concerned are modelled a second
  time, with the suffix \<open>64\<close>, over values of the following type.

  A \<^verbatim>\<open>float64\<close> is a finite number, \<open>+Inf\<close>, \<open>-Inf\<close> or \<open>NaN\<close>. The result of an
  arithmetic operation on finite numbers is the exact result passed through \<open>fl\<close>:
  \<^item> a result of magnitude \<open>2\<^sup>1\<^sup>0\<^sup>2\<^sup>4 - 2\<^sup>9\<^sup>7\<^sup>0\<close> or more (half a unit in the last place
    above the largest finite \<^verbatim>\<open>float64\<close>) is an infinity;
  \<^item> a result of magnitude \<open>2\<^sup>-\<^sup>1\<^sup>0\<^sup>7\<^sup>5\<close> or less (half the smallest positive
    \<^verbatim>\<open>float64\<close>) is zero;
  \<^item> any other result is kept as it is: the rounding to 53 significant bits is not
    modelled.
  The sign of a zero is not modelled either: a zero is \<open>+0\<close>. Every divisor in the
  functions below is a magnitude or a product of magnitudes, which is never \<open>-0\<close>.
\<close>

datatype float64 = Fin real | PInf | NInf | NaN

definition overflow_threshold :: real where
  "overflow_threshold = 2 ^ 1024 - 2 ^ 970"

definition underflow_threshold :: real where
  "underflow_threshold = 1 / 2 ^ 1075"

definition fl :: "real \<Rightarrow> float64" where
  "fl r =
     (if overflow_threshold \<le> r then PInf
      else if r \<le> - overflow_threshold then NInf
      else if \<bar>r\<bar> \<le> underflow_threshold then Fin 0
      else Fin r)"

text \<open>The operators \<open>-x\<close>, \<open>x + y\<close>, \<open>x - y\<close>, \<open>x * y\<close> and \<open>x / y\<close> of IEEE 754.\<close>

fun fneg :: "float64 \<Rightarrow> float64" where
  "fneg (Fin a) = Fin (- a)"
| "fneg PInf = NInf"
| "fneg NInf = PInf"
| "fneg NaN = NaN"

fun fadd :: "float64 \<Rightarrow> float64 \<Rightarrow> float64" where
  "fadd (Fin a) (Fin b) = fl (a + b)"
| "fadd NaN y = NaN"
| "fadd x NaN = NaN"
| "fadd PInf NInf = NaN"
| "fadd NInf PInf = NaN"
| "fadd PInf y = PInf"
| "fadd x PInf = PInf"
| "fadd NInf y = NInf"
| "fadd x NInf = NInf"

definition fsub :: "float64 \<Rightarrow> float64 \<Rightarrow> float64" where
  "fsub x y = fadd x (fneg y)"

fun fmul :: "float64 \<Rightarrow> float64 \<Rightarrow> float64" where
  "fmul (Fin a) (Fin b) = fl (a * b)"
| "fmul NaN y = NaN"
| "fmul x NaN = NaN"
| "fmul (Fin a) PInf = (if a = 0 then NaN else if 0 < a then PInf else NInf)"
| "fmul (Fin a) NInf = (if a = 0 then NaN else if 0 < a then NInf else PInf)"
| "fmul PInf (Fin b) = (if b = 0 then NaN else if 0 < b then PInf else NInf)"
| "fmul NInf (Fin b) = (if b = 0 then NaN else if 0 < b then NInf else PInf)"
| "fmul PInf PInf = PInf"
| "fmul NInf NInf = PInf"
| "fmul PInf NInf = NInf"
| "fmul NInf PInf = NInf"

fun fdiv :: "float64 \<Rightarrow> float64 \<Rightarrow> float64" where
  "fdiv (Fin a) (Fin b) =
     (if b = 0 then (if a = 0 then NaN else if 0 < a then PInf else NInf)
      else fl (a / b))"
| "fdiv NaN y = NaN"
| "fdiv x NaN = NaN"
| "fdiv (Fin a) PInf = Fin 0"
| "fdiv (Fin a) NInf = Fin 0"
| "fdiv PInf (Fin b) = (if 0 \<le> b then PInf else NInf)"
| "fdiv NInf (Fin b) = (if 0 \<le> b then NInf else PInf)"
| "fdiv PInf PInf = NaN"
| "fdiv PInf NInf = NaN"
| "fdiv NInf PInf = NaN"
| "fdiv NInf NInf = NaN"

text \<open>
  \<^verbatim>\<open>math.Abs\<close>, \<^verbatim>\<open>math.Sqrt\<close> and \<^verbatim>\<open>math.Acos\<close>. The square root and the arc
  cosine of a \<^verbatim>\<open>float64\<close> neither overflow nor underflow.
\<close>

fun fabs :: "float64 \<Rightarrow> float64" where
  "fabs (Fin a) = Fin \<bar>a\<bar>"
| "fabs PInf = PInf"
| "fabs NInf = PInf"
| "fabs NaN = NaN"

fun fsqrt :: "float64 \<Rightarrow> float64" where
  "fsqrt (Fin a) = (if a < 0 then NaN else Fin (sqrt a))"
| "fsqrt PInf = PInf"
| "fsqrt NInf = NaN"
| "fsqrt NaN = NaN"


text \<open>The comparisons \<open>x < y\<close> and \<open>x == y\<close>: false whenever an operand is \<open>NaN\<close>.\<close>

fun flt :: "float64 \<Rightarrow> float64 \<Rightarrow> bool" where
  "flt (Fin a) (Fin b) = (a < b)"
| "flt NaN y = False"
| "flt x NaN = False"
| "flt x NInf = False"
| "flt PInf y = False"
| "flt NInf y = True"
| "flt x PInf = True"

fun feq :: "float64 \<Rightarrow> float64 \<Rightarrow> bool" where
  "feq (Fin a) (Fin b) = (a = b)"
| "feq PInf PInf = True"
| "feq NInf NInf = True"
| "feq x y = False"

text \<open>The struct \<^verbatim>\<open>Vector\<close>, with components of this type.\<close>

record Vector64 =
  X64 :: float64
  Y64 :: float64
  Z64 :: float64


text \<open>\<^verbatim>\<open>func NewVector(values ...float64) Vector\<close>.\<close>

definition NewVector64 :: "float64 list \<Rightarrow> Vector64" where
  "NewVector64 values =
     (let x = Fin 0; y = Fin 0; z = Fin 0;
          l = length values;
          x = (if l > 0 then values ! 0 else x);
          y = (if l > 1 then values ! 1 else y);
          z = (if l > 2 then values ! 2 else z)
      in \<lparr>X64 = x, Y64 = y, Z64 = z\<rparr>)"

subsection \<open>Equality\<close>

text \<open>
  \<^verbatim>\<open>func Equals(v1, v2 Vector) bool\<close> and \<^verbatim>\<open>func (v1 Vector) Equals(v2 Vector) bool\<close>
  of \<^verbatim>\<open>vector.go\<close>: the absolute difference on each axis is compared, strictly,
  with the literal \<^verbatim>\<open>1e-9\<close>.
\<close>

definition Equals :: "Vector64 \<Rightarrow> Vector64 \<Rightarrow> bool" where
  "Equals v1 v2 =
     (let x = fabs (fsub (X64 v1) (X64 v2));
          y = fabs (fsub (Y64 v1) (Y64 v2));
          z = fabs (fsub (Z64 v1) (Z64 v2))
      in flt x (Fin (1 / 10 ^ 9)) \<and> flt y (Fin (1 / 10 ^ 9)) \<and> flt z (Fin (1 / 10 ^ 9)))"

definition Equals_m :: "Vector64 \<Rightarrow> Vector64 \<Rightarrow> bool" where
  "Equals_m v1 v2 =
     (let x = fabs (fsub (X64 v1) (X64 v2));
          y = fabs (fsub (Y64 v1) (Y64 v2));
          z = fabs (fsub (Z64 v1) (Z64 v2))
      in flt x (Fin (1 / 10 ^ 9)) \<and> flt y (Fin (1 / 10 ^ 9)) \<and> flt z (Fin (1 / 10 ^ 9)))"

text \<open>
  The two functions of the same names in the second source file (\<^verbatim>\<open>part_000\<close>):
  \<^verbatim>\<open>return v1.X == v2.X && v1.Y == v2.Y && v1.Z == v2.Z\<close>.
\<close>

definition Equals_p0 :: "Vector64 \<Rightarrow> Vector64 \<Rightarrow> bool" where
  "Equals_p0 v1 v2 = (feq (X64 v1) (X64 v2) \<and> feq (Y64 v1) (Y64 v2) \<and> feq (Z64 v1) (Z64 v2))"

definition Equals_m_p0 :: "Vector64 \<Rightarrow> Vector64 \<Rightarrow> bool" where
  "Equals_m_p0 v1 v2 = (feq (X64 v1) (X64 v2) \<and> feq (Y64 v1) (Y64 v2) \<and> feq (Z64 v1) (Z64 v2))"

subsection \<open>Magnitude, normalisation and heading\<close>

text \<open>
  \<^verbatim>\<open>Div\<close>, \<^verbatim>\<open>(*Vector).Div\<close>, \<^verbatim>\<open>MagSq\<close>, \<^verbatim>\<open>Mag\<close>, \<^verbatim>\<open>(Vector).MagSq\<close>,
  \<^verbatim>\<open>(Vector).Mag\<close> and \<^verbatim>\<open>(Vector).DotProduct\<close>, each product and each sum being one
  operation of \<^verbatim>\<open>float64\<close>, in the order in which the source writes them.
\<close>

definition Div64 :: "Vector64 \<Rightarrow> float64 \<Rightarrow> Vector64" where
  "Div64 v d = \<lparr>X64 = fdiv (X64 v) d, Y64 = fdiv (Y64 v) d, Z64 = fdiv (Z64 v) d\<rparr>"


definition MagSq64 :: "Vector64 \<Rightarrow> float64" where
  "MagSq64 v =
     fadd (fadd (fmul (X64 v) (X64 v)) (fmul (Y64 v) (Y64 v))) (fmul (Z64 v) (Z64 v))"

definition MagSq_m64 :: "Vector64 \<Rightarrow> float64" where
  "MagSq_m64 v =
     fadd (fadd (fmul (X64 v) (X64 v)) (fmul (Y64 v) (Y64 v))) (fmul (Z64 v) (Z64 v))"

definition Mag64 :: "Vector64 \<Rightarrow> float64" where
  "Mag64 v = fsqrt (MagSq64 v)"

definition Mag_m64 :: "Vector64 \<Rightarrow> float64" where
  "Mag_m64 v = fsqrt (MagSq_m64 v)"








text \<open>
  A component is in the safe range when it is zero or its magnitude lies between
  \<open>10\<^sup>-\<^sup>1\<^sup>5\<^sup>0\<close> and \<open>10\<^sup>1\<^sup>5\<^sup>0\<close>: then no square and no sum of three squares
  overflows or underflows.
\<close>

definition in_range :: "real \<Rightarrow> bool" where
  "in_range c = (c = 0 \<or> (1 / 10 ^ 150 \<le> \<bar>c\<bar> \<and> \<bar>c\<bar> \<le> 10 ^ 150))"


section \<open>Basic facts\<close>

subsection \<open>The constructor\<close>

lemma NewVector_0 [simp]: "NewVector [] = \<lparr>X = 0, Y = 0, Z = 0\<rparr>"
  by (simp add: NewVector_def)

lemma NewVector_1 [simp]: "NewVector [a] = \<lparr>X = a, Y = 0, Z = 0\<rparr>"
  by (simp add: NewVector_def)

lemma NewVector_2 [simp]: "NewVector [a, b] = \<lparr>X = a, Y = b, Z = 0\<rparr>"
  by (simp add: NewVector_def)

lemma NewVector_3 [simp]: "NewVector [a, b, c] = \<lparr>X = a, Y = b, Z = c\<rparr>"
  by (simp add: NewVector_def)

subsection \<open>Magnitude\<close>

lemma Mag_m_Mag: "Mag_m v = Mag v"
  by (simp add: Mag_m_def Mag_def MagSq_m_def MagSq_def)

lemma MagSq_nonneg: "0 \<le> MagSq v"
  by (simp add: MagSq_def)

lemma MagSq_zero_iff: "MagSq v = 0 \<longleftrightarrow> X v = 0 \<and> Y v = 0 \<and> Z v = 0"
proof -
  have "MagSq v = ((X v)\<^sup>2 + (Y v)\<^sup>2) + (Z v)\<^sup>2"
    by (simp add: MagSq_def power2_eq_square)
  moreover have "((X v)\<^sup>2 + (Y v)\<^sup>2) + (Z v)\<^sup>2 = 0 \<longleftrightarrow> (X v)\<^sup>2 + (Y v)\<^sup>2 = 0 \<and> (Z v)\<^sup>2 = 0"
    by (rule add_nonneg_eq_0_iff) simp_all
  ultimately show ?thesis by (simp add: sum_power2_eq_zero_iff)
qed

lemma Mag_zero_iff: "Mag v = 0 \<longleftrightarrow> X v = 0 \<and> Y v = 0 \<and> Z v = 0"
  by (simp add: Mag_def MagSq_zero_iff)

lemma Mag_pos:
  assumes "v \<noteq> \<lparr>X = 0, Y = 0, Z = 0\<rparr>"
  shows "0 < Mag v"
proof -
  have "\<not> (X v = 0 \<and> Y v = 0 \<and> Z v = 0)"
    using assms by (cases v) auto
  then have "Mag v \<noteq> 0" by (simp add: Mag_zero_iff)
  moreover have "0 \<le> Mag v" by (simp add: Mag_def MagSq_nonneg)
  ultimately show ?thesis by simp
qed

lemma Mag_scale:
  assumes "0 < m"
  shows "Mag \<lparr>X = X v / m, Y = Y v / m, Z = Z v / m\<rparr> = Mag v / m"
proof -
  have "MagSq \<lparr>X = X v / m, Y = Y v / m, Z = Z v / m\<rparr> = MagSq v / (m * m)"
    by (simp add: MagSq_def add_divide_distrib)
  then have "Mag \<lparr>X = X v / m, Y = Y v / m, Z = Z v / m\<rparr> = sqrt (MagSq v) / sqrt (m * m)"
    by (simp add: Mag_def real_sqrt_divide)
  then show ?thesis using assms by (simp add: Mag_def)
qed

lemma Mag_x_axis: "0 \<le> a \<Longrightarrow> Mag \<lparr>X = a, Y = 0, Z = 0\<rparr> = a"
  by (simp add: Mag_def MagSq_def)

lemma abs_X_le_Mag: "\<bar>X v\<bar> \<le> Mag v"
proof -
  have "(X v)\<^sup>2 \<le> MagSq v" by (simp add: MagSq_def power2_eq_square)
  then have "sqrt ((X v)\<^sup>2) \<le> sqrt (MagSq v)" by (simp only: real_sqrt_le_iff)
  then show ?thesis by (simp add: Mag_def)
qed

lemma X_ratio_range:
  assumes "Mag v \<noteq> 0"
  shows "- 1 \<le> X v / Mag v \<and> X v / Mag v \<le> 1"
proof -
  have m: "0 < Mag v" using assms by (simp add: Mag_def MagSq_nonneg less_le)
  have "\<bar>X v / Mag v\<bar> \<le> 1" using m abs_X_le_Mag [of v] by simp
  then show ?thesis by linarith
qed


lemma Mag_3_0_4: "Mag \<lparr>X = 3 / 5, Y = 0, Z = 4 / 5\<rparr> = 1"
proof -
  have "MagSq \<lparr>X = 3 / 5, Y = 0, Z = 4 / 5\<rparr> = 1" by (simp add: MagSq_def)
  then show ?thesis by (simp only: Mag_def) simp
qed

lemma Mag_unit_3_4: "Mag \<lparr>X = 3 / 5, Y = 4 / 5, Z = 0\<rparr> = 1"
proof -
  have "MagSq \<lparr>X = 3 / 5, Y = 4 / 5, Z = 0\<rparr> = 1" by (simp add: MagSq_def)
  then show ?thesis by (simp only: Mag_def) simp
qed

subsection \<open>Normalisation\<close>

lemma Div_m_eq: "Div_m v d = Div v d"
  by (simp add: Div_m_def Div_def)

lemma Normalise_m_eq: "Normalise_m v = Normalise v"
  by (simp add: Normalise_m_def Normalise_def Div_m_eq)

lemma Normalise_zero: "Normalise \<lparr>X = 0, Y = 0, Z = 0\<rparr> = Inl NonFinite"
  by (simp add: Normalise_def Div_def Mag_m_def MagSq_m_def)

lemma Normalise_eval:
  assumes "v \<noteq> \<lparr>X = 0, Y = 0, Z = 0\<rparr>"
  shows "Normalise v = Inr \<lparr>X = X v / Mag v, Y = Y v / Mag v, Z = Z v / Mag v\<rparr>"
  using Mag_pos [OF assms] by (simp add: Normalise_def Div_def Mag_m_Mag Let_def)

lemma Normalise_Mag:
  assumes "v \<noteq> \<lparr>X = 0, Y = 0, Z = 0\<rparr>"
  shows "Mag \<lparr>X = X v / Mag v, Y = Y v / Mag v, Z = Z v / Mag v\<rparr> = 1"
  using Mag_pos [OF assms] by (simp add: Mag_scale)

subsection \<open>Angles\<close>

lemma AngleBetween_m_eq: "AngleBetween_m v w = AngleBetween v w"
  by (simp add: AngleBetween_m_def AngleBetween_def)

lemma AngleBetween_sym: "AngleBetween v w = AngleBetween w v"
  by (simp add: AngleBetween_def DotProduct_m_def Let_def mult.commute)

lemma Heading_m_eq: "Heading_m v = Heading v"
  by (simp add: Heading_m_def Heading_def AngleBetween_m_eq AngleBetween_sym Let_def)

lemma AngleBetween_x_axis:
  assumes "Mag v \<noteq> 0" and "0 < a"
  shows "AngleBetween v \<lparr>X = a, Y = 0, Z = 0\<rparr> = Inr (arccos (X v / Mag v))"
proof -
  have q: "DotProduct_m v \<lparr>X = a, Y = 0, Z = 0\<rparr> / (Mag v * a) = X v / Mag v"
    using assms by (simp add: DotProduct_m_def)
  have n: "Mag v * a \<noteq> 0" using assms by simp
  have "AngleBetween v \<lparr>X = a, Y = 0, Z = 0\<rparr> = math_Acos (X v / Mag v)"
    using assms(2) n q by (simp add: AngleBetween_def Let_def Mag_m_Mag Mag_x_axis)
  also have "\<dots> = Inr (arccos (X v / Mag v))"
    using X_ratio_range [OF assms(1)] by (simp add: math_Acos_def)
  finally show ?thesis .
qed

text \<open>
  For a vector of non-zero magnitude, \<^verbatim>\<open>Heading\<close> is the angle between the whole
  vector, \<open>z\<close> included, and the \<open>x\<close> axis.
\<close>

lemma Heading_eval:
  assumes "Mag v \<noteq> 0"
  shows "Heading v = Inr (arccos (X v / Mag v))"
  using AngleBetween_x_axis [OF assms, of 10] by (simp add: Heading_def)

lemma Heading_zero: "Heading \<lparr>X = 0, Y = 0, Z = 0\<rparr> = Inl NonFinite"
  by (simp add: Heading_def AngleBetween_def Mag_m_def MagSq_m_def)

lemma Heading_first_quadrant:
  assumes "Mag w = 1" and "0 \<le> X w"
  shows "\<exists>h. Heading w = Inr h \<and> 0 \<le> h \<and> h \<le> pi / 2"
proof -
  have m: "Mag w \<noteq> 0" using assms(1) by simp
  have h: "Heading w = Inr (arccos (X w))"
    using Heading_eval [OF m] assms(1) by simp
  have r: "X w \<le> 1" using X_ratio_range [OF m] assms(1) by simp
  have "0 \<le> arccos (X w)" using assms(2) r by (simp add: arccos_lbound)
  moreover have "arccos (X w) \<le> pi / 2" using assms(2) r by (rule arccos_le_pi2)
  ultimately show ?thesis using h by simp
qed


subsection \<open>Rotation\<close>

lemma Rotate_eval:
  "Rotate v a = \<lparr>X = cos a * X v + sin a * Y v, Y = cos a * Y v - sin a * X v, Z = 0\<rparr>"
  by (simp add: Rotate_def Let_def)

text \<open>
  In the method the new \<open>y\<close> is computed from the new \<open>x\<close>, that is from
  \<open>cos a * x + sin a * y\<close>, where the function takes the old \<open>x\<close>.
\<close>

lemma Rotate_m_eval:
  "Rotate_m v a =
     \<lparr>X = cos a * X v + sin a * Y v,
      Y = cos a * Y v - sin a * (cos a * X v + sin a * Y v),
      Z = Z v\<rparr>"
  by (simp add: Rotate_m_def Let_def)

lemma rot_sq:
  "(c * x + s * y)\<^sup>2 + (c * y - s * x)\<^sup>2 = (c\<^sup>2 + s\<^sup>2) * (x\<^sup>2 + y\<^sup>2)"
  for c s x y :: real
  by algebra

text \<open>On a vector in the plane \<open>z = 0\<close> the function \<^verbatim>\<open>Rotate\<close> keeps the magnitude.\<close>

lemma Rotate_planar_Mag:
  assumes "Z v = 0"
  shows "Mag (Rotate v a) = Mag v"
proof -
  have "MagSq (Rotate v a) = (cos a * X v + sin a * Y v)\<^sup>2 + (cos a * Y v - sin a * X v)\<^sup>2"
    by (simp add: Rotate_eval MagSq_def power2_eq_square)
  also have "\<dots> = ((cos a)\<^sup>2 + (sin a)\<^sup>2) * ((X v)\<^sup>2 + (Y v)\<^sup>2)"
    by (rule rot_sq)
  also have "\<dots> = MagSq v"
    using assms by (simp add: MagSq_def power2_eq_square)
  finally show ?thesis by (simp add: Mag_def)
qed

lemma Rotate_Z: "Z (Rotate v a) = 0"
  by (simp add: Rotate_eval)

lemma Rotate_m_Z: "Z (Rotate_m v a) = Z v"
  by (simp add: Rotate_m_eval)

subsection \<open>Quadrants\<close>

lemma trunc_zero: "- 1 < r \<Longrightarrow> r < 1 \<Longrightarrow> trunc r = 0"
  unfolding trunc_def by (auto simp add: floor_eq_iff ceiling_eq_iff)

lemma math_Mod_small:
  assumes "- y < x" and "x < y"
  shows "math_Mod x y = Inr x"
proof -
  have y: "0 < y" using assms by linarith
  have "- 1 < x / y" and "x / y < 1"
    using assms y by (simp_all add: pos_less_divide_eq pos_divide_less_eq)
  then have "trunc (x / y) = 0" by (rule trunc_zero)
  then show ?thesis using y by (simp add: math_Mod_def)
qed

text \<open>
  \<^verbatim>\<open>math.Mod\<close> keeps the sign of its first argument, so a negative angle stays
  negative, fails the three tests of \<^verbatim>\<open>quadrant\<close> and takes the last \<^verbatim>\<open>return\<close>.
\<close>

lemma quadrant_neg:
  assumes "- (2 * pi) < a" and "a < 0"
  shows "quadrant a = ''ne''"
proof -
  have "math_Mod a (2 * pi) = Inr a"
    using assms by (intro math_Mod_small) simp_all
  then show ?thesis using assms(2) pi_gt_zero by (simp add: quadrant_def)
qed

lemma quadrant_first:
  assumes "0 \<le> a" and "a \<le> pi / 2"
  shows "quadrant a = ''se''"
proof -
  have "a < 2 * pi" using assms pi_gt_zero by linarith
  then have "math_Mod a (2 * pi) = Inr a"
    using assms(1) pi_gt_zero by (intro math_Mod_small) linarith+
  then show ?thesis using assms by (simp add: quadrant_def)
qed

lemma unit_circle_Mag: "Mag \<lparr>X = cos a, Y = sin a, Z = 0\<rparr> = 1"
  by (simp add: Mag_def MagSq_def power2_eq_square [symmetric])

lemma Normalise_m_unit_circle:
  "Normalise_m \<lparr>X = cos a, Y = sin a, Z = 0\<rparr> = Inr \<lparr>X = cos a, Y = sin a, Z = 0\<rparr>"
  by (simp add: Normalise_m_eq Normalise_def Div_def Mag_m_Mag unit_circle_Mag)

lemma FromAngle_unit_ne:
  assumes "quadrant (- t) = ''ne''"
  shows "FromAngle [t] = Inr \<lparr>X = \<bar>cos t\<bar>, Y = \<bar>sin t\<bar>, Z = 0\<rparr>"
  using assms Normalise_m_unit_circle [of "- t"]
  by (simp add: FromAngle_def Let_def)

lemma FromAngle_unit_se:
  assumes "quadrant (- t) = ''se''"
  shows "FromAngle [t] = Inr \<lparr>X = \<bar>cos t\<bar>, Y = - \<bar>sin t\<bar>, Z = 0\<rparr>"
  using assms Normalise_m_unit_circle [of "- t"]
  by (simp add: FromAngle_def Let_def)

text \<open>
  Every angle strictly between \<open>0\<close> and \<open>2\<pi>\<close> therefore gives a vector with both
  components non-negative, whatever the direction asked for.
\<close>

lemma FromAngle_positive:
  assumes "0 < t" and "t < 2 * pi"
  shows "FromAngle [t] = Inr \<lparr>X = \<bar>cos t\<bar>, Y = \<bar>sin t\<bar>, Z = 0\<rparr>"
  using assms by (intro FromAngle_unit_ne quadrant_neg) simp_all

lemma FromAngle_empty: "FromAngle [] = Inl IndexOutOfRange"
  by (simp add: FromAngle_def)

subsection \<open>Number formatting\<close>

lemma round_half_even_of_int: "round_half_even (of_int k) = k"
  by (simp add: round_half_even_def)

lemma digits_1000000: "digits 1000000 = ''1000000''"
  by (simp add: digits.simps digit_char_def)

lemma digits_2000000: "digits 2000000 = ''2000000''"
  by (simp add: digits.simps digit_char_def)

lemma digits_3000000: "digits 3000000 = ''3000000''"
  by (simp add: digits.simps digit_char_def)

lemma FormatFloat_f_1: "FormatFloat_f 6 1 = ''1.000000''"
  using round_half_even_of_int [of 1000000]
  by (simp add: FormatFloat_f_def digits_1000000)

lemma FormatFloat_f_2: "FormatFloat_f 6 2 = ''2.000000''"
  using round_half_even_of_int [of 2000000]
  by (simp add: FormatFloat_f_def digits_2000000)

lemma FormatFloat_f_3: "FormatFloat_f 6 3 = ''3.000000''"
  using round_half_even_of_int [of 3000000]
  by (simp add: FormatFloat_f_def digits_3000000)

text \<open>
  Whatever the number, the text has exactly six characters after the point.
\<close>

lemma FormatFloat_f_6_shape:
  "\<exists>sign ip fp. FormatFloat_f 6 x = sign @ ip @ ''.'' @ fp \<and> length fp = 6"
proof -
  define ds where "ds = digits (nat (round_half_even (\<bar>x\<bar> * 10 ^ 6)))"
  define ps where "ps = replicate (6 + 1 - length ds) CHR ''0'' @ ds"
  have l: "6 \<le> length ps" by (simp add: ps_def)
  have "FormatFloat_f 6 x =
          (if x < 0 then ''-'' else []) @ take (length ps - 6) ps @ ''.'' @ drop (length ps - 6) ps"
    by (simp add: FormatFloat_f_def Let_def ds_def ps_def)
  moreover have "length (drop (length ps - 6) ps) = 6" using l by simp
  ultimately show ?thesis by blast
qed

section \<open>Facts about the range of \<^verbatim>\<open>float64\<close>\<close>

lemma overflow_threshold_bounds: "10 ^ 308 < overflow_threshold" "overflow_threshold < 10 ^ 309"
  by (simp_all add: overflow_threshold_def)

lemma underflow_threshold_bounds:
  "1 / 10 ^ 324 < underflow_threshold" "underflow_threshold < 1 / 10 ^ 323"
  by (simp_all add: underflow_threshold_def field_simps)

lemma underflow_threshold_pos: "0 < underflow_threshold"
  by (simp add: underflow_threshold_def)

lemma three_less_overflow_threshold: "3 < overflow_threshold"
  by (simp add: overflow_threshold_def)

lemma fl_zero [simp]: "fl 0 = Fin 0"
  using three_less_overflow_threshold underflow_threshold_pos
  by (simp add: fl_def)

lemma fl_exact:
  assumes "underflow_threshold < \<bar>r\<bar>" and "\<bar>r\<bar> < overflow_threshold"
  shows "fl r = Fin r"
  using assms by (auto simp add: fl_def)


lemma fl_exact_decimal:
  assumes "r = 0 \<or> 1 / 10 ^ 323 \<le> \<bar>r\<bar>" and "\<bar>r\<bar> \<le> 10 ^ 308"
  shows "fl r = Fin r"
proof (cases "r = 0")
  case True
  then show ?thesis by simp
next
  case False
  then have "underflow_threshold < \<bar>r\<bar>"
    using assms(1) underflow_threshold_bounds(2) by linarith
  moreover have "\<bar>r\<bar> < overflow_threshold"
    using assms(2) overflow_threshold_bounds(1) by linarith
  ultimately show ?thesis by (rule fl_exact)
qed




subsection \<open>Components in the safe range\<close>

lemma in_range_0 [simp]: "in_range 0"
  by (simp add: in_range_def)

lemma in_range_numeral [simp]: "in_range 1" "in_range 5" "in_range (- 5)" "in_range 6" "in_range 10"
  "in_range 3" "in_range 4"
  by (simp_all add: in_range_def)




lemma MagSq64_eq: "MagSq64 w = MagSq_m64 w"
  by (simp add: MagSq64_def MagSq_m64_def)

lemma Mag64_eq: "Mag64 w = Mag_m64 w"
  by (simp add: Mag64_def Mag_m64_def MagSq64_eq)







subsection \<open>Normalisation in the safe range\<close>









subsection \<open>Heading in the safe range\<close>






lemma NewVector64_2 [simp]:
  "NewVector64 [a, b] = \<lparr>X64 = a, Y64 = b, Z64 = Fin 0\<rparr>"
  by (simp add: NewVector64_def)

lemma fl_100 [simp]: "fl 100 = Fin 100"
  by (rule fl_exact_decimal) simp_all





subsection \<open>Equality on vectors with infinite components\<close>

text \<open>
  A vector whose components are \<open>+Inf\<close>, such as \<^verbatim>\<open>Div(Vector{1, 2, 3}, 0)\<close>, is
  equal to itself for the second source file and not for \<^verbatim>\<open>vector.go\<close>, where the
  difference \<open>Inf - Inf\<close> is \<open>NaN\<close>.
\<close>

lemma Div64_by_zero:
  "Div64 \<lparr>X64 = Fin 1, Y64 = Fin 2, Z64 = Fin 3\<rparr> (Fin 0) = \<lparr>X64 = PInf, Y64 = PInf, Z64 = PInf\<rparr>"
  by (simp add: Div64_def)

lemma Equals_infinite:
  "Equals_p0 \<lparr>X64 = PInf, Y64 = PInf, Z64 = PInf\<rparr> \<lparr>X64 = PInf, Y64 = PInf, Z64 = PInf\<rparr>"
  "\<not> Equals \<lparr>X64 = PInf, Y64 = PInf, Z64 = PInf\<rparr> \<lparr>X64 = PInf, Y64 = PInf, Z64 = PInf\<rparr>"
  by (simp_all add: Equals_p0_def Equals_def fsub_def)


section \<open>The claims\<close>

subsection \<open>\<open>Set\<close>\<close>

text \<open>
  The \<^verbatim>\<open>Set\<close> of the second source file does overwrite all three fields, with the
  constructor's defaulting rule, for every argument count from 0 to 3.
\<close>

lemma Set_m_p0_overwrites:
  "Set_m_p0 v [] = NewVector []"
  "Set_m_p0 v [a] = NewVector [a]"
  "Set_m_p0 v [a, b] = NewVector [a, b]"
  "Set_m_p0 v [a, b, c] = NewVector [a, b, c]"
  by (simp_all add: Set_m_p0_def)

text \<open>
  The \<^verbatim>\<open>Set\<close> of \<^verbatim>\<open>vector.go\<close> resets nothing unless it is called without
  arguments: fields beyond the argument count keep their previous values.
\<close>

lemma Set_m_keeps:
  "Set_m v [] = \<lparr>X = 0, Y = 0, Z = 0\<rparr>"
  "Set_m v [a] = \<lparr>X = a, Y = Y v, Z = Z v\<rparr>"
  "Set_m v [a, b] = \<lparr>X = a, Y = b, Z = Z v\<rparr>"
  "Set_m v [a, b, c] = \<lparr>X = a, Y = b, Z = c\<rparr>"
  by (simp_all add: Set_m_def)

text \<open>
  Claim C3. Calling \<^verbatim>\<open>Set\<close> with fewer than three arguments is claimed to reset the
  remaining components to zero, so that \<^verbatim>\<open>set(5)\<close> on \<open>{1, 2, 3}\<close> gives \<open>{5, 0, 0}\<close>.
  The \<^verbatim>\<open>Set\<close> of \<^verbatim>\<open>vector.go\<close>, evaluated on that input, returns \<open>{5, 2, 3}\<close>; the
  \<^verbatim>\<open>Set\<close> of the second source file returns \<open>{5, 0, 0}\<close>.
\<close>

theorem C3_Set_keeps_old_components:
  "Set_m \<lparr>X = 1, Y = 2, Z = 3\<rparr> [5] = \<lparr>X = 5, Y = 2, Z = 3\<rparr>
   \<and> Set_m \<lparr>X = 1, Y = 2, Z = 3\<rparr> [5] \<noteq> \<lparr>X = 5, Y = 0, Z = 0\<rparr>
   \<and> Set_m_p0 \<lparr>X = 1, Y = 2, Z = 3\<rparr> [5] = \<lparr>X = 5, Y = 0, Z = 0\<rparr>"
  by (simp add: Set_m_def Set_m_p0_def)

subsection \<open>Rotation\<close>

text \<open>
  Claim C1. Rotation is claimed to preserve the magnitude, for the function
  \<^verbatim>\<open>Rotate\<close> and for the method. The function returns a vector whose \<open>z\<close> is zero,
  so the unit vector along \<open>z\<close> rotated by the angle \<open>0\<close> has magnitude \<open>0\<close>. The
  method computes the new \<open>y\<close> from the new \<open>x\<close>, so the unit vector along \<open>x\<close>
  rotated by \<open>\<pi>/2\<close> has magnitude \<open>0\<close> as well.
\<close>

theorem C1_rotate_changes_magnitude:
  "Mag \<lparr>X = 0, Y = 0, Z = 1\<rparr> = 1
   \<and> Mag (Rotate \<lparr>X = 0, Y = 0, Z = 1\<rparr> 0) = 0
   \<and> Mag \<lparr>X = 1, Y = 0, Z = 0\<rparr> = 1
   \<and> Mag (Rotate_m \<lparr>X = 1, Y = 0, Z = 0\<rparr> (pi / 2)) = 0"
  by (simp add: Rotate_eval Rotate_m_eval Mag_def MagSq_def)

text \<open>
  Claim C2. The method \<^verbatim>\<open>Rotate\<close> is claimed to compute the new \<open>y\<close> from the
  receiver's original \<open>x\<close>, and so to agree with the function \<^verbatim>\<open>Rotate\<close> on \<open>x\<close> and
  \<open>y\<close>. On the unit vector along \<open>x\<close> and the angle \<open>\<pi>/2\<close> the function returns
  \<open>(0, -1)\<close>; the method, which reads the \<open>x\<close> it has just overwritten with \<open>0\<close>,
  leaves \<open>(0, 0)\<close>.
\<close>

theorem C2_rotate_m_reads_new_x:
  "Rotate \<lparr>X = 1, Y = 0, Z = 0\<rparr> (pi / 2) = \<lparr>X = 0, Y = - 1, Z = 0\<rparr>
   \<and> Rotate_m \<lparr>X = 1, Y = 0, Z = 0\<rparr> (pi / 2) = \<lparr>X = 0, Y = 0, Z = 0\<rparr>
   \<and> Y (Rotate_m \<lparr>X = 1, Y = 0, Z = 0\<rparr> (pi / 2)) \<noteq> Y (Rotate \<lparr>X = 1, Y = 0, Z = 0\<rparr> (pi / 2))"
  by (simp add: Rotate_eval Rotate_m_eval)

text \<open>
  Claim C5. Rotation is claimed to leave the \<open>z\<close> component unchanged. The method
  does; the function \<^verbatim>\<open>Rotate\<close> builds its result from two arguments, so the result
  has \<open>z = 0\<close>: the vector \<open>{1, 2, 3}\<close> rotated by the angle \<open>0\<close> comes back as
  \<open>{1, 2, 0}\<close>.
\<close>

theorem C5_rotate_clears_z:
  "Rotate \<lparr>X = 1, Y = 2, Z = 3\<rparr> 0 = \<lparr>X = 1, Y = 2, Z = 0\<rparr>
   \<and> Z (Rotate \<lparr>X = 1, Y = 2, Z = 3\<rparr> 0) \<noteq> Z \<lparr>X = 1, Y = 2, Z = 3\<rparr>
   \<and> Z (Rotate_m \<lparr>X = 1, Y = 2, Z = 3\<rparr> 0) = 3"
  by (simp add: Rotate_eval Rotate_m_eval)

subsection \<open>\<open>FromAngle\<close>\<close>

text \<open>
  Claim C6. \<^verbatim>\<open>FromAngle(\<theta>, L)\<close> is claimed to return
  \<open>(cos (-\<theta>) * L, sin (-\<theta>) * L, 0)\<close>, the quadrant step giving each axis its
  correct sign. Evaluated with \<open>L\<close> omitted: for \<open>\<theta> = \<pi>\<close> the code returns
  \<open>(1, 0, 0)\<close> where the formula gives \<open>(-1, 0, 0)\<close>; for \<open>\<theta> = \<pi>/2\<close> it returns
  \<open>(0, 1, 0)\<close> where the formula gives \<open>(0, -1, 0)\<close>; for \<open>\<theta> = -\<pi>/2\<close> it returns
  \<open>(0, -1, 0)\<close> where the formula gives \<open>(0, 1, 0)\<close>.
\<close>

theorem C6_FromAngle_wrong_signs:
  "FromAngle [pi] = Inr \<lparr>X = 1, Y = 0, Z = 0\<rparr>
   \<and> \<lparr>X = cos (- pi) * 1, Y = sin (- pi) * 1, Z = 0\<rparr> = \<lparr>X = - 1, Y = 0, Z = 0\<rparr>
   \<and> FromAngle [pi / 2] = Inr \<lparr>X = 0, Y = 1, Z = 0\<rparr>
   \<and> \<lparr>X = cos (- (pi / 2)) * 1, Y = sin (- (pi / 2)) * 1, Z = 0\<rparr> = \<lparr>X = 0, Y = - 1, Z = 0\<rparr>
   \<and> FromAngle [- (pi / 2)] = Inr \<lparr>X = 0, Y = - 1, Z = 0\<rparr>
   \<and> \<lparr>X = cos (- (- (pi / 2))) * 1, Y = sin (- (- (pi / 2))) * 1, Z = 0\<rparr>
       = \<lparr>X = 0, Y = 1, Z = 0\<rparr>"
proof -
  have a: "FromAngle [pi] = Inr \<lparr>X = 1, Y = 0, Z = 0\<rparr>"
    using FromAngle_positive [of pi] by simp
  have b: "FromAngle [pi / 2] = Inr \<lparr>X = 0, Y = 1, Z = 0\<rparr>"
    using FromAngle_positive [of "pi / 2"] by simp
  have "quadrant (- (- (pi / 2))) = ''se''"
    by (simp add: quadrant_first)
  then have c: "FromAngle [- (pi / 2)] = Inr \<lparr>X = 0, Y = - 1, Z = 0\<rparr>"
    using FromAngle_unit_se [of "- (pi / 2)"] by simp
  show ?thesis using a b c by simp
qed

subsection \<open>Heading\<close>




subsection \<open>Normalisation\<close>




subsection \<open>Equality\<close>

text \<open>
  Claim C8 says that all definitions of \<^verbatim>\<open>Equals\<close>, in every source file, return
  the same boolean on every pair of vectors. The two vectors \<open>{0, 0, 0}\<close> and
  \<open>{10\<^sup>-\<^sup>1\<^sup>0, 0, 0}\<close> are equal for the function and the method of \<^verbatim>\<open>vector.go\<close>
  and different for the function and the method of the second source file.
\<close>

theorem C8_Equals_counterexample:
  "Equals \<lparr>X64 = Fin 0, Y64 = Fin 0, Z64 = Fin 0\<rparr>
          \<lparr>X64 = Fin (1 / 10 ^ 10), Y64 = Fin 0, Z64 = Fin 0\<rparr>
   \<and> Equals_m \<lparr>X64 = Fin 0, Y64 = Fin 0, Z64 = Fin 0\<rparr>
          \<lparr>X64 = Fin (1 / 10 ^ 10), Y64 = Fin 0, Z64 = Fin 0\<rparr>
   \<and> \<not> Equals_p0 \<lparr>X64 = Fin 0, Y64 = Fin 0, Z64 = Fin 0\<rparr>
          \<lparr>X64 = Fin (1 / 10 ^ 10), Y64 = Fin 0, Z64 = Fin 0\<rparr>
   \<and> \<not> Equals_m_p0 \<lparr>X64 = Fin 0, Y64 = Fin 0, Z64 = Fin 0\<rparr>
          \<lparr>X64 = Fin (1 / 10 ^ 10), Y64 = Fin 0, Z64 = Fin 0\<rparr>"
proof -
  have d: "fl (- (1 / 10000000000)) = Fin (- (1 / 10000000000))"
    by (rule fl_exact_decimal) simp_all
  show ?thesis
    by (simp add: Equals_def Equals_m_def Equals_p0_def Equals_m_p0_def fsub_def d)
qed

text \<open>
  Claim C8, amended: within each source file the function \<^verbatim>\<open>Equals\<close> and the
  method \<^verbatim>\<open>Equals\<close> return the same boolean on every pair of vectors, whether the
  components are finite, infinite or \<open>NaN\<close>. In \<^verbatim>\<open>vector.go\<close> both compare the
  absolute difference on each axis, strictly, with \<open>10\<^sup>-\<^sup>9\<close>; in the second source
  file both compare the three components with \<open>==\<close>.
\<close>

theorem C8_Equals_per_file:
  "Equals_m a b = Equals a b
   \<and> Equals a b =
       (flt (fabs (fsub (X64 a) (X64 b))) (Fin (1 / 10 ^ 9))
        \<and> flt (fabs (fsub (Y64 a) (Y64 b))) (Fin (1 / 10 ^ 9))
        \<and> flt (fabs (fsub (Z64 a) (Z64 b))) (Fin (1 / 10 ^ 9)))
   \<and> Equals_m_p0 a b = Equals_p0 a b
   \<and> Equals_p0 a b = (feq (X64 a) (X64 b) \<and> feq (Y64 a) (Y64 b) \<and> feq (Z64 a) (Z64 b))"
  by (simp add: Equals_def Equals_m_def Equals_p0_def Equals_m_p0_def)


subsection \<open>String representation\<close>

text \<open>
  Claim C9. The string of a vector is claimed to show each component with 2 decimal
  places. The code's verb \<^verbatim>\<open>%2f\<close> sets a width, not a precision, and every
  component is written with 6 decimal places: \<open>{1, 2, 3}\<close> is written
  \<^verbatim>\<open>{1.000000, 2.000000, 3.000000}\<close> and not \<^verbatim>\<open>{1.00, 2.00, 3.00}\<close>.
\<close>

theorem C9_String_six_decimals:
  "String_m \<lparr>X = 1, Y = 2, Z = 3\<rparr> = ''{1.000000, 2.000000, 3.000000}''
   \<and> String_m \<lparr>X = 1, Y = 2, Z = 3\<rparr> \<noteq> ''{1.00, 2.00, 3.00}''"
  by (simp add: String_m_def Sprintf_2f_def pad_left_def
      FormatFloat_f_1 FormatFloat_f_2 FormatFloat_f_3)

subsection \<open>Random unit vectors\<close>

text \<open>
  Claim C10. When the two values drawn from the random source lie in \<open>[0, 1)\<close> and
  are not both zero, \<^verbatim>\<open>Random2d\<close> returns a vector with \<open>z = 0\<close> and with \<open>x\<close> and
  \<open>y\<close> non-negative, so that its heading is confined to one quadrant, the interval
  \<open>[0, \<pi>/2]\<close>. When the three values drawn lie in \<open>[0, 1)\<close> and are not all zero,
  \<^verbatim>\<open>Random3d\<close> returns a vector whose three components are non-negative.
\<close>

theorem C10_random_nonneg:
  assumes "0 \<le> r1" "r1 < 1" "0 \<le> r2" "r2 < 1" "r1 \<noteq> 0 \<or> r2 \<noteq> 0"
      and "0 \<le> s1" "s1 < 1" "0 \<le> s2" "s2 < 1" "0 \<le> s3" "s3 < 1"
          "s1 \<noteq> 0 \<or> s2 \<noteq> 0 \<or> s3 \<noteq> 0"
  shows "(\<exists>v. Random2d r1 r2 = Inr v \<and> Z v = 0 \<and> 0 \<le> X v \<and> 0 \<le> Y v
              \<and> (\<exists>h. Heading v = Inr h \<and> 0 \<le> h \<and> h \<le> pi / 2))
         \<and> (\<exists>w. Random3d s1 s2 s3 = Inr w \<and> 0 \<le> X w \<and> 0 \<le> Y w \<and> 0 \<le> Z w)"
proof -
  let ?a = "\<lparr>X = r1, Y = r2, Z = 0\<rparr>" and ?b = "\<lparr>X = s1, Y = s2, Z = s3\<rparr>"
  let ?v = "\<lparr>X = r1 / Mag ?a, Y = r2 / Mag ?a, Z = 0 / Mag ?a\<rparr>"
  let ?w = "\<lparr>X = s1 / Mag ?b, Y = s2 / Mag ?b, Z = s3 / Mag ?b\<rparr>"
  have na: "?a \<noteq> \<lparr>X = 0, Y = 0, Z = 0\<rparr>" using assms(5) by auto
  have nb: "?b \<noteq> \<lparr>X = 0, Y = 0, Z = 0\<rparr>" using assms(12) by auto
  have ma: "0 < Mag ?a" by (rule Mag_pos [OF na])
  have mb: "0 < Mag ?b" by (rule Mag_pos [OF nb])
  have va: "Random2d r1 r2 = Inr ?v"
    using Normalise_eval [OF na] by (simp add: Random2d_def Normalise_m_eq)
  have vb: "Random3d s1 s2 s3 = Inr ?w"
    using Normalise_eval [OF nb] by (simp add: Random3d_def Normalise_m_eq)
  have x: "0 \<le> X ?v" and y: "0 \<le> Y ?v" and z: "Z ?v = 0"
    using ma assms(1,3) by simp_all
  have u: "Mag ?v = 1" using Normalise_Mag [OF na] by simp
  have hd: "\<exists>h. Heading ?v = Inr h \<and> 0 \<le> h \<and> h \<le> pi / 2"
    by (rule Heading_first_quadrant [OF u x])
  have w: "0 \<le> X ?w \<and> 0 \<le> Y ?w \<and> 0 \<le> Z ?w"
    using mb assms(6,8,10) by simp
  have "\<exists>v. Random2d r1 r2 = Inr v \<and> Z v = 0 \<and> 0 \<le> X v \<and> 0 \<le> Y v
              \<and> (\<exists>h. Heading v = Inr h \<and> 0 \<le> h \<and> h \<le> pi / 2)"
    using va x y z hd by blast
  moreover have "\<exists>w. Random3d s1 s2 s3 = Inr w \<and> 0 \<le> X w \<and> 0 \<le> Y w \<and> 0 \<le> Z w"
    using vb w by blast
  ultimately show ?thesis by (rule conjI)
qed

theorem C10_random_nonneg_witness:
  "((0::real) \<le> 3 / 5 \<and> (3 / 5 :: real) < 1 \<and> (0::real) \<le> 4 / 5 \<and> (4 / 5 :: real) < 1
    \<and> (3 / 5 :: real) \<noteq> 0)
   \<and> Random2d (3 / 5) (4 / 5) = Inr \<lparr>X = 3 / 5, Y = 4 / 5, Z = 0\<rparr>
   \<and> Random3d (3 / 5) 0 (4 / 5) = Inr \<lparr>X = 3 / 5, Y = 0, Z = 4 / 5\<rparr>
   \<and> (\<exists>v. Random2d (3 / 5) (4 / 5) = Inr v \<and> Z v = 0 \<and> 0 \<le> X v \<and> 0 \<le> Y v
              \<and> (\<exists>h. Heading v = Inr h \<and> 0 \<le> h \<and> h \<le> pi / 2))
   \<and> (\<exists>w. Random3d (3 / 5) 0 (4 / 5) = Inr w \<and> 0 \<le> X w \<and> 0 \<le> Y w \<and> 0 \<le> Z w)"
proof -
  have h: "(0::real) \<le> 3 / 5 \<and> (3 / 5 :: real) < 1 \<and> (0::real) \<le> 4 / 5 \<and> (4 / 5 :: real) < 1
    \<and> (3 / 5 :: real) \<noteq> 0"
    by simp
  have c: "(\<exists>v. Random2d (3 / 5) (4 / 5) = Inr v \<and> Z v = 0 \<and> 0 \<le> X v \<and> 0 \<le> Y v
              \<and> (\<exists>h. Heading v = Inr h \<and> 0 \<le> h \<and> h \<le> pi / 2))
   \<and> (\<exists>w. Random3d (3 / 5) 0 (4 / 5) = Inr w \<and> 0 \<le> X w \<and> 0 \<le> Y w \<and> 0 \<le> Z w)"
    by (rule C10_random_nonneg) simp_all
  have a: "Random2d (3 / 5) (4 / 5) = Inr \<lparr>X = 3 / 5, Y = 4 / 5, Z = 0\<rparr>"
    by (simp add: Random2d_def Normalise_m_eq Normalise_def Div_def Mag_m_Mag Mag_unit_3_4)
  have b: "Random3d (3 / 5) 0 (4 / 5) = Inr \<lparr>X = 3 / 5, Y = 0, Z = 4 / 5\<rparr>"
    by (simp add: Random3d_def Normalise_m_eq Normalise_def Div_def Mag_m_Mag Mag_3_0_4)
  show ?thesis by (rule conjI [OF h conjI [OF a conjI [OF b c]]])
qed

end
